theory Spec2Isabelle
  imports Main "HOL-Library.Sublist" "HOL-Library.Multiset"
begin

section \<open>Strings\<close>

text \<open>
  A JavaScript string is a sequence of UTF-16 code units. The model uses \<open>string\<close>, a list of
  8-bit characters, read as the code units U+0000 to U+00FF (Basic Latin and Latin-1
  Supplement); strings with code units beyond U+00FF are outside the model.

  \<open>String.prototype.toLowerCase\<close> maps, in that range, \<open>A\<close> to \<open>Z\<close> (65 to 90) and the
  Latin-1 capitals U+00C0 to U+00DE except the multiplication sign U+00D7 (192 to 222 except
  215) to the code unit 32 above, and leaves every other code unit unchanged. No mapping of
  that range depends on the context of the character.
\<close>

definition toLowerCase_char :: "char \<Rightarrow> char" where
  "toLowerCase_char c =
     (let n = (of_char c :: nat)
      in if (65 \<le> n \<and> n \<le> 90) \<or> (192 \<le> n \<and> n \<le> 222 \<and> n \<noteq> 215)
         then char_of (n + 32) else c)"

definition toLowerCase :: "string \<Rightarrow> string" where
  "toLowerCase s = map toLowerCase_char s"

text \<open>
  \<open>s.includes(t)\<close>: whether \<open>t\<close> occurs in \<open>s\<close> as a contiguous run of code units, searched
  from every start position of \<open>s\<close>, the end included (so the empty string occurs in every
  string).
\<close>

fun String_includes :: "string \<Rightarrow> string \<Rightarrow> bool" where
  "String_includes [] t = (t = [])"
| "String_includes (c # s) t = (prefix t (c # s) \<or> String_includes s t)"

section \<open>The content loader (utils/mdx: src/app/posts/[slug]/page.tsx, lines 40 to 96)\<close>

subsection \<open>Regular expressions on file names\<close>

text \<open>
  Without the \<open>m\<close> flag, \<open>$\<close> matches at the end of the input only, so \<open>/\.mdx?$/\<close> can match
  at one place at most: four code units before the end when the string ends in \<open>.mdx\<close>, three
  before the end when it ends in \<open>.md\<close>. \<open>test\<close> says whether there is a match and
  \<open>replace(re, '')\<close> cuts the match out.
\<close>

definition test_md_mdx :: "string \<Rightarrow> bool" where
  \<comment> \<open>\<open>/\.mdx?$/.test(s)\<close>\<close>
  "test_md_mdx s = (suffix ''.mdx'' s \<or> suffix ''.md'' s)"

definition replace_md_mdx :: "string \<Rightarrow> string" where
  \<comment> \<open>\<open>s.replace(/\.mdx?$/, '')\<close>\<close>
  "replace_md_mdx s =
     (if suffix ''.mdx'' s then take (length s - 4) s
      else if suffix ''.md'' s then take (length s - 3) s
      else s)"

definition replace_mdx :: "string \<Rightarrow> string" where
  \<comment> \<open>\<open>s.replace(/\.mdx$/, '')\<close>\<close>
  "replace_mdx s = (if suffix ''.mdx'' s then take (length s - 4) s else s)"

subsection \<open>Values, errors and the environment\<close>

text \<open>
  The values a front-matter block can hold, and the object \<open>data\<close> that gray-matter returns:
  a map from keys to values. A key that is absent reads as \<open>undefined\<close> (\<open>None\<close>).
\<close>

datatype jsvalue =
    JString string
  | JNumber int
  | JBool bool
  | JNull
  | JDate int
  | JArray "jsvalue list"

type_synonym data = "string \<rightharpoonup> jsvalue"

text \<open>
  The loader catches nothing, so each exception of a library call is a branch of the model:
  the system error of \<open>fs\<close> with its code, the exception gray-matter throws on a malformed
  metadata header (the spec's ParseError), and the exception of \<open>serialize\<close> when the body does
  not compile. \<open>FsError ENOENT\<close> is the condition "no such file" (the spec's NotFound);
  every other code is a file or directory that cannot be read (the spec's IOError).
\<close>

datatype errno = ENOENT | EACCES | EISDIR | ENOTDIR | EIO | OtherCode string

datatype error = FsError errno | ParseError string | CompileError string

text \<open>
  What the loader calls and does not define: the working directory, \<open>path.join\<close>, the two
  reads of \<open>fs\<close>, \<open>matter\<close> of gray-matter, \<open>serialize\<close> of next-mdx-remote (with the fixed
  plugin options of the source) and \<open>new Date(v).getTime()\<close>, whose \<open>NaN\<close> for a value that is
  no date is \<open>None\<close>. They are parameters of the model, each read as a function of its
  arguments (the store does not change while the loader runs); \<open>'m\<close> is the type of a
  compiled body.
\<close>

record 'm env =
  cwd :: string
  path_join :: "string \<Rightarrow> string \<Rightarrow> string"
  readdirSync :: "string \<Rightarrow> errno + string list"
  readFileSync :: "string \<Rightarrow> errno + string"
  matter :: "string \<Rightarrow> string + (data \<times> string)"
  serialize :: "string \<Rightarrow> data \<Rightarrow> string + 'm"
  Date_getTime :: "jsvalue option \<Rightarrow> int option"

definition POSTS_PATH :: "'m env \<Rightarrow> string" where
  "POSTS_PATH env = path_join env (cwd env) ''src/content/posts''"

subsection \<open>getPostBySlug (lines 57 to 78)\<close>

text \<open>The path \<open>getPostBySlug\<close> reads: its \<open>realSlug\<close> and \<open>filePath\<close>.\<close>

definition postFilePath :: "'m env \<Rightarrow> string \<Rightarrow> string" where
  "postFilePath env slug =
     (let realSlug = replace_mdx slug
      in path_join env (POSTS_PATH env) (realSlug @ ''.mdx''))"

record 'm post =
  mdxSource :: 'm
  metadata :: data

text \<open>
  The object spread \<open>{...data, slug: realSlug}\<close> copies the keys of \<open>data\<close> and then sets
  \<open>slug\<close>. The function is \<open>async\<close>: an exception rejects the promise it returns (\<open>Inl\<close>).
\<close>

definition getPostBySlug :: "'m env \<Rightarrow> string \<Rightarrow> error + 'm post" where
  "getPostBySlug env slug =
     (let realSlug = replace_mdx slug;
          filePath = postFilePath env slug
      in case readFileSync env filePath of
           Inl code \<Rightarrow> Inl (FsError code)
         | Inr fileContent \<Rightarrow>
             (case matter env fileContent of
                Inl msg \<Rightarrow> Inl (ParseError msg)
              | Inr (data, content) \<Rightarrow>
                  (case serialize env content data of
                     Inl msg \<Rightarrow> Inl (CompileError msg)
                   | Inr compiled \<Rightarrow>
                       Inr \<lparr>mdxSource = compiled,
                            metadata = data(''slug'' \<mapsto> JString realSlug)\<rparr>)))"

subsection \<open>getAllPosts (lines 80 to 96)\<close>

text \<open>
  The \<open>async\<close> callback of \<open>map\<close>: it runs to its end when \<open>map\<close> calls it (it awaits nothing)
  and returns a promise, fulfilled with the metadata or rejected with what was thrown.
\<close>

definition loadPost :: "'m env \<Rightarrow> string \<Rightarrow> error + data" where
  "loadPost env fileName =
     (case readFileSync env (path_join env (POSTS_PATH env) fileName) of
        Inl code \<Rightarrow> Inl (FsError code)
      | Inr source \<Rightarrow>
          (case matter env source of
             Inl msg \<Rightarrow> Inl (ParseError msg)
           | Inr (data, content) \<Rightarrow>
               Inr (data(''slug'' \<mapsto> JString (replace_md_mdx fileName)))))"

text \<open>
  \<open>Promise.all\<close> on promises that are all settled: it rejects with the reason of the first
  rejected one in the order of the array, and otherwise fulfils with all the values in order.
\<close>

fun Promise_all :: "(error + 'a) list \<Rightarrow> error + 'a list" where
  "Promise_all [] = Inr []"
| "Promise_all (Inl e # ps) = Inl e"
| "Promise_all (Inr v # ps) =
     (case Promise_all ps of Inl e \<Rightarrow> Inl e | Inr vs \<Rightarrow> Inr (v # vs))"

text \<open>
  The comparison function of the sort, \<open>new Date(b.date).getTime() - new Date(a.date).getTime()\<close>:
  \<open>NaN\<close> (\<open>None\<close>) when one of the two dates is no date. Time values are integers of magnitude
  at most 8.64e15, so the floating-point difference has the sign of the exact one.
\<close>

definition compareFn :: "'m env \<Rightarrow> data \<Rightarrow> data \<Rightarrow> int option" where
  "compareFn env a b =
     (case (Date_getTime env (b ''date''), Date_getTime env (a ''date'')) of
        (Some tb, Some ta) \<Rightarrow> Some (tb - ta)
      | _ \<Rightarrow> None)"

text \<open>
  \<open>Array.prototype.sort\<close> with a comparison function. The language's \<open>SortCompare\<close> reads a
  \<open>NaN\<close> result as \<open>+0\<close>. The sort is stable; it is modelled as the stable insertion sort, which
  computes the one stable sorted order whenever the comparison function is consistent (here:
  whenever every date is a date). For an inconsistent comparison function the language leaves
  the order to the implementation, and only the elements of the result are meaningful.
\<close>

definition SortCompare :: "('a \<Rightarrow> 'a \<Rightarrow> int option) \<Rightarrow> 'a \<Rightarrow> 'a \<Rightarrow> int" where
  "SortCompare comparefn x y = (case comparefn x y of None \<Rightarrow> 0 | Some v \<Rightarrow> v)"

fun insert_sorted :: "('a \<Rightarrow> 'a \<Rightarrow> int option) \<Rightarrow> 'a \<Rightarrow> 'a list \<Rightarrow> 'a list" where
  "insert_sorted comparefn x [] = [x]"
| "insert_sorted comparefn x (y # ys) =
     (if SortCompare comparefn x y \<le> 0 then x # y # ys
      else y # insert_sorted comparefn x ys)"

definition Array_sort :: "('a \<Rightarrow> 'a \<Rightarrow> int option) \<Rightarrow> 'a list \<Rightarrow> 'a list" where
  "Array_sort comparefn xs = foldr (insert_sorted comparefn) xs []"

definition getAllPosts :: "'m env \<Rightarrow> error + data list" where
  "getAllPosts env =
     (case readdirSync env (POSTS_PATH env) of
        Inl code \<Rightarrow> Inl (FsError code)
      | Inr files \<Rightarrow>
          (case Promise_all (map (loadPost env) (filter test_md_mdx files)) of
             Inl e \<Rightarrow> Inl e
           | Inr loaded \<Rightarrow> Inr (Array_sort (compareFn env) loaded)))"

text \<open>
  The property read \<open>post.slug\<close>, and \<open>generateStaticParams\<close> of the post page (lines 5 to
  10): the slugs of the listing, in its order. The page passes each of them to
  \<open>getPostBySlug\<close>.
\<close>

definition slug_of :: "data \<Rightarrow> jsvalue option" where
  "slug_of post = post ''slug''"

definition generateStaticParams :: "'m env \<Rightarrow> error + jsvalue option list" where
  "generateStaticParams env =
     (case getAllPosts env of
        Inl e \<Rightarrow> Inl e
      | Inr loaded \<Rightarrow> Inr (map slug_of loaded))"

text \<open>
  The order of the listing, in the spec's words: \<open>a\<close> may stand before \<open>b\<close> when both dates are
  dates and the one of \<open>a\<close> is not earlier than the one of \<open>b\<close>.
\<close>

definition newer_or_same :: "'m env \<Rightarrow> data \<Rightarrow> data \<Rightarrow> bool" where
  "newer_or_same env a b =
     (case (Date_getTime env (a ''date''), Date_getTime env (b ''date'')) of
        (Some ta, Some tb) \<Rightarrow> tb \<le> ta
      | _ \<Rightarrow> False)"

text \<open>
  The Content Store as a directory of files: the list of its entries, each a file name and
  what reading that file gives (its content, or the error code of a file that cannot be
  read). An environment reads the store when the posts directory lists the names of the
  entries, and the read of a name in that directory gives what the first entry of that name
  holds, and reports that there is no such file when no entry has that name.
\<close>

definition reads_store :: "'m env \<Rightarrow> (string \<times> (errno + string)) list \<Rightarrow> bool" where
  "reads_store env entries \<longleftrightarrow>
     readdirSync env (POSTS_PATH env) = Inr (map fst entries) \<and>
     (\<forall>n. readFileSync env (path_join env (POSTS_PATH env) n) =
            (case find (\<lambda>entry. n = fst entry) entries of
               None \<Rightarrow> Inl ENOENT
             | Some entry \<Rightarrow> snd entry))"

section \<open>The search filter of the home page (src/app/page.tsx, lines 23 to 33)\<close>

text \<open>
  \<open>interface PostMetadata\<close> of utils/mdx. The search filter is typed over this interface, so
  its posts carry every field.
\<close>

record PostMetadata =
  title :: string
  date :: string
  description :: string
  slug :: string
  tags :: "string list"

text \<open>
  The callback of \<open>posts.filter\<close> in \<open>handleSearch\<close>; \<open>tags.some\<close> is \<open>list_ex\<close>.
\<close>

definition postMatches :: "string \<Rightarrow> PostMetadata \<Rightarrow> bool" where
  "postMatches searchTerm post =
     (let titleMatch = String_includes (toLowerCase (title post)) searchTerm;
          descriptionMatch = String_includes (toLowerCase (description post)) searchTerm;
          tagsMatch = list_ex (\<lambda>tag. String_includes (toLowerCase tag) searchTerm) (tags post)
      in titleMatch \<or> descriptionMatch \<or> tagsMatch)"

text \<open>
  The list \<open>handleSearch\<close> computes from the loaded posts and the query (the spec's
  \<open>filter(posts, query)\<close>).
\<close>

definition filterPosts :: "PostMetadata list \<Rightarrow> string \<Rightarrow> PostMetadata list" where
  "filterPosts ps query =
     (let searchTerm = toLowerCase query
      in filter (postMatches searchTerm) ps)"

text \<open>
  The state of the \<open>Home\<close> component (its three \<open>useState\<close> cells) and \<open>handleSearch\<close> as a
  state update: it stores the filtered list and leaves the loaded posts as they are.
\<close>

record home_state =
  posts :: "PostMetadata list"
  filteredPosts :: "PostMetadata list"
  isLoading :: bool

definition handleSearch :: "home_state \<Rightarrow> string \<Rightarrow> home_state" where
  "handleSearch st query = st\<lparr>filteredPosts := filterPosts (posts st) query\<rparr>"

section \<open>A sample Content Store\<close>

text \<open>
  A concrete environment for the examples: the working directory \<open>/app\<close>, a directory of
  posts given as the list of its entries (a name and what reading the file gives), a path
  join that puts a \<open>/\<close> between its arguments (as \<open>path.join\<close> does for a directory and a
  plain file name), a front-matter parser that knows the sample files and rejects every other
  input, a compiler that rejects the empty body only, and the time values of the two dates of
  the samples (00:00 UTC of the day, in milliseconds since 1970).
\<close>

definition store_dir :: string where
  "store_dir = ''/app/src/content/posts''"

definition first_post_source :: string where
  "first_post_source = ''--- title: My First Learning Experience, date: 2024-03-15 --- Hello''"

definition first_post_data :: data where
  "first_post_data =
     [''title'' \<mapsto> JString ''My First Learning Experience'',
      ''date'' \<mapsto> JString ''2024-03-15'',
      ''tags'' \<mapsto> JArray [JString ''coding'', JString ''learning'']]"

definition gradle_post_source :: string where
  "gradle_post_source =
     ''--- title: Building a Custom Gradle Plugin, date: 2024-01-19 --- The Problem''"

definition gradle_post_data :: data where
  "gradle_post_data =
     [''title'' \<mapsto> JString ''Building a Custom Gradle Plugin'',
      ''date'' \<mapsto> JString ''2024-01-19'',
      ''tags'' \<mapsto> JArray [JString ''gradle'', JString ''kotlin'']]"

definition slugged_source :: string where
  "slugged_source = ''--- title: Notes, date: 2024-01-19, slug: custom-slug --- Body''"

definition slugged_data :: data where
  "slugged_data =
     [''title'' \<mapsto> JString ''Notes'',
      ''date'' \<mapsto> JString ''2024-01-19'',
      ''slug'' \<mapsto> JString ''custom-slug'']"

definition malformed_source :: string where
  "malformed_source = ''--- title: [ --- Body''"

definition store_matter :: "string \<Rightarrow> string + (data \<times> string)" where
  "store_matter source =
     (if source = first_post_source then Inr (first_post_data, ''Hello'')
      else if source = gradle_post_source then Inr (gradle_post_data, ''The Problem'')
      else if source = slugged_source then Inr (slugged_data, ''Body'')
      else Inl ''YAMLException'')"

definition store_Date :: "jsvalue option \<Rightarrow> int option" where
  "store_Date v =
     (if v = Some (JString ''2024-01-19'') then Some 1705622400000
      else if v = Some (JString ''2024-03-15'') then Some 1710460800000
      else None)"

definition store_env :: "(string \<times> (errno + string)) list \<Rightarrow> string env" where
  "store_env entries =
     \<lparr>cwd = ''/app'',
      path_join = (\<lambda>a b. a @ ''/'' @ b),
      readdirSync = (\<lambda>p. if p = store_dir then Inr (map fst entries) else Inl ENOENT),
      readFileSync = (\<lambda>p. case find (\<lambda>entry. p = store_dir @ ''/'' @ fst entry) entries of
                            None \<Rightarrow> Inl ENOENT
                          | Some entry \<Rightarrow> snd entry),
      matter = store_matter,
      serialize = (\<lambda>content scope. if content = [] then Inl ''empty'' else Inr content),
      Date_getTime = store_Date\<rparr>"

text \<open>The stores of the examples.\<close>

definition two_posts :: "string env" where
  "two_posts = store_env [(''gradle-plugin.mdx'', Inr gradle_post_source),
                          (''first-post.mdx'', Inr first_post_source)]"


definition md_only :: "string env" where
  "md_only = store_env [(''notes.md'', Inr first_post_source)]"

definition md_and_mdx :: "string env" where
  "md_and_mdx = store_env [(''notes.md'', Inr first_post_source),
                           (''notes.mdx'', Inr gradle_post_source)]"

definition unreadable_then_malformed :: "string env" where
  "unreadable_then_malformed = store_env [(''a-unreadable.mdx'', Inl EACCES),
                                          (''b-malformed.mdx'', Inr malformed_source)]"

definition one_malformed :: "string env" where
  "one_malformed = store_env [(''first-post.mdx'', Inr first_post_source),
                              (''b-malformed.mdx'', Inr malformed_source),
                              (''gradle-plugin.mdx'', Inr gradle_post_source)]"

definition slugged_store :: "string env" where
  "slugged_store = store_env [(''notes.mdx'', Inr slugged_source),
                              (''first-post.mdx'', Inr first_post_source)]"

text \<open>Two posts for the search filter; only the tags of the first hold \<open>learn\<close>.\<close>

definition tagged_post :: PostMetadata where
  "tagged_post =
     \<lparr>title = ''Gradle Plugin'', date = ''2024-01-19'', description = ''Automated releases'',
      slug = ''gradle-plugin'', tags = [''coding'', ''learning'']\<rparr>"

definition other_post :: PostMetadata where
  "other_post =
     \<lparr>title = ''Weekend Hike'', date = ''2024-03-15'', description = ''A walk in the hills'',
      slug = ''weekend-hike'', tags = [''outdoors'']\<rparr>"

section \<open>Facts about the strings\<close>

lemma toLowerCase_char_idem: "toLowerCase_char (toLowerCase_char c) = toLowerCase_char c"
  by (auto simp: toLowerCase_char_def Let_def)

lemma toLowerCase_idem: "toLowerCase (toLowerCase s) = toLowerCase s"
  by (simp add: toLowerCase_def toLowerCase_char_idem)

text \<open>\<open>includes\<close> is the contiguous-sublist relation of the library, arguments swapped.\<close>

lemma String_includes_sublist: "String_includes s t \<longleftrightarrow> sublist t s"
  by (induction s) (simp_all add: sublist_Cons_right)

lemma String_includes_empty: "String_includes s []"
  by (induction s) simp_all

section \<open>Facts about the loader\<close>

subsection \<open>File names\<close>

lemma replace_md_mdx_mdx: "replace_md_mdx (s @ ''.mdx'') = s"
  by (simp add: replace_md_mdx_def suffix_def)

lemma replace_md_mdx_md: "replace_md_mdx (s @ ''.md'') = s"
  by (auto simp: replace_md_mdx_def suffix_def)


lemma test_md_mdx_cases:
  "test_md_mdx n \<longleftrightarrow> (\<exists>s. n = s @ ''.mdx'' \<or> n = s @ ''.md'')"
  by (auto simp: test_md_mdx_def suffix_def)


subsection \<open>Promise.all\<close>

lemma Promise_all_map_Inr: "Promise_all (map Inr vs) = Inr vs"
  by (induction vs) simp_all

lemma Promise_all_Inr_D: "Promise_all ps = Inr vs \<Longrightarrow> ps = map Inr vs"
proof (induction ps arbitrary: vs)
  case Nil
  then show ?case by simp
next
  case (Cons p ps)
  then show ?case by (cases p) (auto split: sum.splits)
qed

lemma Promise_all_Inr_iff: "Promise_all ps = Inr vs \<longleftrightarrow> ps = map Inr vs"
  using Promise_all_Inr_D Promise_all_map_Inr by blast

text \<open>
  When one of the callbacks rejects, \<open>Promise.all\<close> rejects with the reason of the first one
  that does, and every callback before it has fulfilled.
\<close>

lemma first_failure:
  "x \<in> set xs \<Longrightarrow> g x = Inl e0 \<Longrightarrow>
   \<exists>before f rest e. xs = before @ f # rest \<and> (\<forall>y\<in>set before. \<exists>v. g y = Inr v) \<and>
      g f = Inl e \<and> Promise_all (map g xs) = Inl e"
proof (induction xs)
  case Nil
  then show ?case by simp
next
  case (Cons a xs)
  show ?case
  proof (cases "g a")
    case (Inl e)
    then have "a # xs = [] @ a # xs \<and> (\<forall>y\<in>set []. \<exists>v. g y = Inr v) \<and>
      g a = Inl e \<and> Promise_all (map g (a # xs)) = Inl e" by simp
    then show ?thesis by blast
  next
    case (Inr v)
    with Cons.prems have "x \<in> set xs" by auto
    from Cons.IH[OF this Cons.prems(2)] obtain before f rest e where
      h: "xs = before @ f # rest" "\<forall>y\<in>set before. \<exists>v. g y = Inr v"
         "g f = Inl e" "Promise_all (map g xs) = Inl e"
      by blast
    from h Inr have "a # xs = (a # before) @ f # rest \<and>
      (\<forall>y\<in>set (a # before). \<exists>v. g y = Inr v) \<and>
      g f = Inl e \<and> Promise_all (map g (a # xs)) = Inl e" by simp
    then show ?thesis by blast
  qed
qed

lemma map_Inr_member:
  "map g xs = map Inr ys \<Longrightarrow> x \<in> set xs \<Longrightarrow> \<exists>y\<in>set ys. g x = Inr y"
proof (induction xs arbitrary: ys)
  case Nil
  then show ?case by simp
next
  case (Cons a xs)
  then show ?case by (cases ys) auto
qed

lemma map_Inr_source:
  "map g xs = map Inr ys \<Longrightarrow> y \<in> set ys \<Longrightarrow> \<exists>x\<in>set xs. g x = Inr y"
proof (induction xs arbitrary: ys)
  case Nil
  then show ?case by simp
next
  case (Cons a xs)
  then show ?case by (cases ys) auto
qed

subsection \<open>The sort\<close>

lemma mset_insert_sorted: "mset (insert_sorted c x ys) = add_mset x (mset ys)"
  by (induction ys) auto

lemma mset_Array_sort: "mset (Array_sort c xs) = mset xs"
  by (induction xs) (auto simp: Array_sort_def mset_insert_sorted)

lemma set_insert_sorted: "set (insert_sorted c x ys) = insert x (set ys)"
  by (induction ys) auto

lemma set_Array_sort: "set (Array_sort c xs) = set xs"
  using mset_Array_sort[of c xs] by (metis set_mset_mset)

lemma sorted_insert_sorted:
  assumes "Date_getTime env (x ''date'') \<noteq> None"
    and "\<forall>y\<in>set ys. Date_getTime env (y ''date'') \<noteq> None"
    and "sorted_wrt (newer_or_same env) ys"
  shows "sorted_wrt (newer_or_same env) (insert_sorted (compareFn env) x ys)"
  using assms
proof (induction ys)
  case Nil
  then show ?case by simp
next
  case (Cons y ys)
  from Cons.prems obtain tx ty where
    tx: "Date_getTime env (x ''date'') = Some tx" and ty: "Date_getTime env (y ''date'') = Some ty"
    by auto
  show ?case
  proof (cases "SortCompare (compareFn env) x y \<le> 0")
    case True
    then have xy: "newer_or_same env x y"
      by (simp add: SortCompare_def compareFn_def newer_or_same_def tx ty)
    have "\<forall>z\<in>set ys. newer_or_same env x z"
    proof
      fix z assume z: "z \<in> set ys"
      with Cons.prems have yz: "newer_or_same env y z" by simp
      from z Cons.prems obtain tz where "Date_getTime env (z ''date'') = Some tz" by auto
      with xy yz show "newer_or_same env x z"
        by (simp add: newer_or_same_def tx ty)
    qed
    with True xy Cons.prems show ?thesis by simp
  next
    case False
    then have yx: "newer_or_same env y x"
      by (simp add: SortCompare_def compareFn_def newer_or_same_def tx ty)
    from Cons have "sorted_wrt (newer_or_same env) (insert_sorted (compareFn env) x ys)"
      by simp
    with False yx Cons.prems show ?thesis
      by (simp add: set_insert_sorted)
  qed
qed

lemma sorted_Array_sort:
  "\<forall>x\<in>set xs. Date_getTime env (x ''date'') \<noteq> None \<Longrightarrow>
   sorted_wrt (newer_or_same env) (Array_sort (compareFn env) xs)"
proof (induction xs)
  case Nil
  show ?case by (simp add: Array_sort_def)
next
  case (Cons x xs)
  then have "sorted_wrt (newer_or_same env) (Array_sort (compareFn env) xs)" by simp
  moreover have "\<forall>y\<in>set (Array_sort (compareFn env) xs). Date_getTime env (y ''date'') \<noteq> None"
    using Cons.prems by (simp add: set_Array_sort)
  ultimately have "sorted_wrt (newer_or_same env)
      (insert_sorted (compareFn env) x (Array_sort (compareFn env) xs))"
    using Cons.prems by (intro sorted_insert_sorted) simp_all
  then show ?case by (simp add: Array_sort_def)
qed

subsection \<open>What a successful load and a successful listing say\<close>

lemma loadPost_Inr_D:
  assumes "loadPost env f = Inr p"
  shows "\<exists>source d c. readFileSync env (path_join env (POSTS_PATH env) f) = Inr source \<and>
           matter env source = Inr (d, c) \<and>
           p = d(''slug'' \<mapsto> JString (replace_md_mdx f))"
  using assms by (auto simp: loadPost_def split: sum.splits)

lemma loadPost_slug: "loadPost env f = Inr p \<Longrightarrow> slug_of p = Some (JString (replace_md_mdx f))"
  by (auto simp: slug_of_def dest: loadPost_Inr_D)

lemma loaded_slugs:
  "map (loadPost env) fs = map Inr loaded \<Longrightarrow>
   map slug_of loaded = map (\<lambda>f. Some (JString (replace_md_mdx f))) fs"
proof (induction fs arbitrary: loaded)
  case Nil
  then show ?case by simp
next
  case (Cons f fs)
  then show ?case by (cases loaded) (auto simp: loadPost_slug)
qed

lemma getAllPosts_Inr_D:
  assumes "getAllPosts env = Inr ps"
  shows "\<exists>files loaded. readdirSync env (POSTS_PATH env) = Inr files \<and>
           map (loadPost env) (filter test_md_mdx files) = map Inr loaded \<and>
           ps = Array_sort (compareFn env) loaded"
  using assms
  by (auto simp: getAllPosts_def Promise_all_Inr_iff split: sum.splits)

subsection \<open>The sample store\<close>

lemma store_POSTS_PATH: "POSTS_PATH (store_env es) = store_dir"
  by (simp add: POSTS_PATH_def store_env_def store_dir_def)

lemma store_readdir: "readdirSync (store_env es) (POSTS_PATH (store_env es)) = Inr (map fst es)"
  by (simp add: store_POSTS_PATH) (simp add: store_env_def)

lemma store_join: "path_join (store_env es) (POSTS_PATH (store_env es)) n = store_dir @ ''/'' @ n"
  by (simp add: store_POSTS_PATH) (simp add: store_env_def)

lemma store_read:
  "readFileSync (store_env es) (path_join (store_env es) (POSTS_PATH (store_env es)) n) =
     (case find (\<lambda>entry. n = fst entry) es of None \<Rightarrow> Inl ENOENT | Some entry \<Rightarrow> snd entry)"
  unfolding store_join by (simp add: store_env_def)

lemma store_reads_store: "reads_store (store_env es) es"
  by (simp add: reads_store_def store_readdir store_read)

lemma store_matter_env: "matter (store_env es) = store_matter"
  by (simp add: store_env_def)

lemma store_serialize_env:
  "serialize (store_env es) = (\<lambda>content scope. if content = [] then Inl ''empty'' else Inr content)"
  by (simp add: store_env_def)

lemma store_Date_env: "Date_getTime (store_env es) = store_Date"
  by (simp add: store_env_def)

lemma store_loadPost:
  "loadPost (store_env es) n =
     (case find (\<lambda>entry. n = fst entry) es of
        None \<Rightarrow> Inl (FsError ENOENT)
      | Some entry \<Rightarrow>
          (case snd entry of
             Inl code \<Rightarrow> Inl (FsError code)
           | Inr source \<Rightarrow>
               (case store_matter source of
                  Inl msg \<Rightarrow> Inl (ParseError msg)
                | Inr (data, content) \<Rightarrow> Inr (data(''slug'' \<mapsto> JString (replace_md_mdx n))))))"
  unfolding loadPost_def store_read store_matter_env
  by (simp split: option.splits sum.splits)


lemma store_read_slug:
  "readFileSync (store_env es) (postFilePath (store_env es) s) =
     (case find (\<lambda>entry. replace_mdx s @ ''.mdx'' = fst entry) es of
        None \<Rightarrow> Inl ENOENT | Some entry \<Rightarrow> snd entry)"
  unfolding postFilePath_def Let_def by (rule store_read)

lemma store_getPostBySlug:
  "getPostBySlug (store_env es) s =
     (case find (\<lambda>entry. replace_mdx s @ ''.mdx'' = fst entry) es of
        None \<Rightarrow> Inl (FsError ENOENT)
      | Some entry \<Rightarrow>
          (case snd entry of
             Inl code \<Rightarrow> Inl (FsError code)
           | Inr source \<Rightarrow>
               (case store_matter source of
                  Inl msg \<Rightarrow> Inl (ParseError msg)
                | Inr (data, content) \<Rightarrow>
                    (if content = [] then Inl (CompileError ''empty'')
                     else Inr \<lparr>mdxSource = content,
                               metadata = data(''slug'' \<mapsto> JString (replace_mdx s))\<rparr>))))"
  unfolding getPostBySlug_def Let_def store_read_slug store_matter_env store_serialize_env
  by (simp split: option.splits sum.splits)

lemma store_getAllPosts:
  "getAllPosts (store_env es) =
     (case Promise_all (map (loadPost (store_env es)) (filter test_md_mdx (map fst es))) of
        Inl e \<Rightarrow> Inl e
      | Inr loaded \<Rightarrow> Inr (Array_sort (compareFn (store_env es)) loaded))"
  unfolding getAllPosts_def store_readdir by simp

lemma sample_sources:
  "store_matter first_post_source = Inr (first_post_data, ''Hello'')"
  "store_matter gradle_post_source = Inr (gradle_post_data, ''The Problem'')"
  "store_matter slugged_source = Inr (slugged_data, ''Body'')"
  "store_matter malformed_source = Inl ''YAMLException''"
  by (simp_all add: store_matter_def first_post_source_def gradle_post_source_def
      slugged_source_def malformed_source_def)

lemma sample_dates:
  "store_Date (first_post_data ''date'') = Some 1710460800000"
  "store_Date (gradle_post_data ''date'') = Some 1705622400000"
  "store_Date (slugged_data ''date'') = Some 1705622400000"
  by (simp_all add: store_Date_def first_post_data_def gradle_post_data_def slugged_data_def)

lemma sample_file_names:
  "test_md_mdx ''gradle-plugin.mdx''" "replace_md_mdx ''gradle-plugin.mdx'' = ''gradle-plugin''"
  "test_md_mdx ''first-post.mdx''" "replace_md_mdx ''first-post.mdx'' = ''first-post''"
  "test_md_mdx ''intro.mdx.mdx''" "replace_md_mdx ''intro.mdx.mdx'' = ''intro.mdx''"
  "test_md_mdx ''notes.md''" "replace_md_mdx ''notes.md'' = ''notes''"
  "test_md_mdx ''notes.mdx''" "replace_md_mdx ''notes.mdx'' = ''notes''"
  "test_md_mdx ''a-unreadable.mdx''" "test_md_mdx ''b-malformed.mdx''"
  by (simp_all add: test_md_mdx_def replace_md_mdx_def suffix_to_prefix)

lemma sample_slugs:
  "replace_mdx ''first-post'' = ''first-post''"
  "replace_mdx ''missing-slug'' = ''missing-slug''"
  "replace_mdx ''intro.mdx'' = ''intro''"
  "replace_mdx ''notes'' = ''notes''"
  "replace_mdx ''notes.mdx'' = ''notes''"
  by (simp_all add: replace_mdx_def suffix_to_prefix)

lemma two_posts_listing:
  "getAllPosts two_posts =
     Inr [first_post_data(''slug'' \<mapsto> JString ''first-post''),
          gradle_post_data(''slug'' \<mapsto> JString ''gradle-plugin'')]"
  unfolding two_posts_def store_getAllPosts
  by (simp add: sample_file_names store_loadPost sample_sources Array_sort_def SortCompare_def
      compareFn_def store_Date_env sample_dates)

section \<open>The claims\<close>

subsection \<open>Content loader\<close>




text \<open>
  A content file with the extension \<open>.md\<close> is listed, and \<open>generateStaticParams\<close> hands its
  slug to the post page, but \<open>getPostBySlug\<close> looks for the \<open>.mdx\<close> name only. The amended C1
  says nothing about such files.
\<close>

lemma md_file_listed_but_not_found:
  "generateStaticParams md_only = Inr [Some (JString ''notes'')] \<and>
   getPostBySlug md_only ''notes'' = Inl (FsError ENOENT)"
proof -
  have "getAllPosts md_only = Inr [first_post_data(''slug'' \<mapsto> JString ''notes'')]"
    unfolding md_only_def store_getAllPosts
    by (simp add: sample_file_names store_loadPost sample_sources Array_sort_def)
  moreover have "getPostBySlug md_only ''notes'' = Inl (FsError ENOENT)"
    by (simp add: md_only_def store_getPostBySlug sample_slugs)
  ultimately show ?thesis
    by (simp add: generateStaticParams_def slug_of_def)
qed

text \<open>
  C2. Whenever the listing succeeds and the date of every listed post is a date, the list is
  sorted by date, most recent first: of any two posts of the list, the earlier one in the
  list has a time value that is not smaller.
\<close>

theorem getAllPosts_sorted:
  assumes "getAllPosts env = Inr ps"
    and "\<forall>p\<in>set ps. Date_getTime env (p ''date'') \<noteq> None"
  shows "sorted_wrt (newer_or_same env) ps"
proof -
  from assms(1) obtain loaded where ps: "ps = Array_sort (compareFn env) loaded"
    using getAllPosts_Inr_D by blast
  with assms(2) have "\<forall>p\<in>set loaded. Date_getTime env (p ''date'') \<noteq> None"
    by (simp add: set_Array_sort)
  then show ?thesis unfolding ps by (rule sorted_Array_sort)
qed

text \<open>
  The example of the claim: the directory lists the post of 2024-01-19 before the post of
  2024-03-15, and the listing returns the March post first.
\<close>

theorem getAllPosts_sorted_witness:
  "readdirSync two_posts (POSTS_PATH two_posts) = Inr [''gradle-plugin.mdx'', ''first-post.mdx''] \<and>
   getAllPosts two_posts =
     Inr [first_post_data(''slug'' \<mapsto> JString ''first-post''),
          gradle_post_data(''slug'' \<mapsto> JString ''gradle-plugin'')] \<and>
   sorted_wrt (newer_or_same two_posts)
     [first_post_data(''slug'' \<mapsto> JString ''first-post''),
      gradle_post_data(''slug'' \<mapsto> JString ''gradle-plugin'')]"
proof -
  have dated: "\<forall>p\<in>set [first_post_data(''slug'' \<mapsto> JString ''first-post''),
          gradle_post_data(''slug'' \<mapsto> JString ''gradle-plugin'')].
       Date_getTime two_posts (p ''date'') \<noteq> None"
    by (simp add: two_posts_def store_Date_env sample_dates)
  have dir: "readdirSync two_posts (POSTS_PATH two_posts) = Inr [''gradle-plugin.mdx'', ''first-post.mdx'']"
    by (simp add: two_posts_def store_readdir)
  from getAllPosts_sorted[OF two_posts_listing dated] two_posts_listing dir
  show ?thesis by simp
qed

text \<open>
  C3. Let the environment read a store. For every slug such that the store holds no file
  whose name is the slug, a trailing \<open>.mdx\<close> stripped, followed by \<open>.mdx\<close>,
  \<open>getPostBySlug\<close> fails with the condition "no such file", \<open>FsError ENOENT\<close>: not with a
  parse error and not with another file-system error.
\<close>

theorem getPostBySlug_not_found:
  assumes store: "reads_store env entries"
    and missing: "replace_mdx s @ ''.mdx'' \<notin> fst ` set entries"
  shows "getPostBySlug env s = Inl (FsError ENOENT) \<and>
         (\<forall>msg. getPostBySlug env s \<noteq> Inl (ParseError msg)) \<and>
         (\<forall>code. code \<noteq> ENOENT \<longrightarrow> getPostBySlug env s \<noteq> Inl (FsError code))"
proof -
  from missing have "find (\<lambda>entry. replace_mdx s @ ''.mdx'' = fst entry) entries = None"
    by (force simp: find_None_iff)
  with store have "readFileSync env (postFilePath env s) = Inl ENOENT"
    by (simp add: reads_store_def postFilePath_def)
  then show ?thesis by (simp add: getPostBySlug_def)
qed

text \<open>The example of the claim: \<open>missing-slug\<close> in the store of the two sample posts.\<close>

theorem getPostBySlug_not_found_witness:
  "replace_mdx ''missing-slug'' @ ''.mdx'' \<notin>
     fst ` set [(''gradle-plugin.mdx'', Inr gradle_post_source),
                (''first-post.mdx'', Inr first_post_source)] \<and>
   getPostBySlug two_posts ''missing-slug'' = Inl (FsError ENOENT)"
proof -
  let ?entries = "[(''gradle-plugin.mdx'', Inr gradle_post_source),
                   (''first-post.mdx'', Inr first_post_source)]"
  have store: "reads_store two_posts ?entries"
    unfolding two_posts_def by (rule store_reads_store)
  have missing: "replace_mdx ''missing-slug'' @ ''.mdx'' \<notin> fst ` set ?entries"
    by (simp add: sample_slugs)
  from getPostBySlug_not_found[OF store missing] missing show ?thesis by simp
qed

text \<open>
  For contrast: a file that the store holds and that cannot be read makes \<open>getPostBySlug\<close>
  fail with the code of that read.
\<close>

lemma getPostBySlug_unreadable:
  assumes "reads_store env entries"
    and "find (\<lambda>entry. replace_mdx s @ ''.mdx'' = fst entry) entries = Some (n, Inl code)"
  shows "getPostBySlug env s = Inl (FsError code)"
proof -
  from assms have "readFileSync env (postFilePath env s) = Inl code"
    by (simp add: reads_store_def postFilePath_def)
  then show ?thesis by (simp add: getPostBySlug_def)
qed

text \<open>
  C4 (as amended). When the listing succeeds, the names of the directory are pairwise distinct
  and no two of them differ only in the extension, \<open>.md\<close> against \<open>.mdx\<close>, the slugs of the
  listed posts are pairwise distinct.
\<close>

theorem slugs_distinct:
  assumes listing: "getAllPosts env = Inr ps"
    and dir: "readdirSync env (POSTS_PATH env) = Inr files"
    and names: "distinct files"
    and ext: "\<not> (\<exists>s. s @ ''.md'' \<in> set files \<and> s @ ''.mdx'' \<in> set files)"
  shows "distinct (map slug_of ps)"
proof -
  let ?fs = "filter test_md_mdx files"
  let ?g = "\<lambda>f. Some (JString (replace_md_mdx f))"
  from getAllPosts_Inr_D[OF listing] obtain files' loaded where
    dir': "readdirSync env (POSTS_PATH env) = Inr files'"
    and loaded': "map (loadPost env) (filter test_md_mdx files') = map Inr loaded"
    and ps: "ps = Array_sort (compareFn env) loaded"
    by blast
  from dir dir' have "files' = files" by simp
  with loaded' have loaded: "map (loadPost env) ?fs = map Inr loaded"
    by simp
  have "inj_on ?g (set ?fs)"
  proof (rule inj_onI)
    fix f1 f2
    assume f1: "f1 \<in> set ?fs" and f2: "f2 \<in> set ?fs" and eq: "?g f1 = ?g f2"
    from f1 obtain s1 where s1: "f1 = s1 @ ''.mdx'' \<or> f1 = s1 @ ''.md''"
      by (auto simp: test_md_mdx_cases)
    from f2 obtain s2 where s2: "f2 = s2 @ ''.mdx'' \<or> f2 = s2 @ ''.md''"
      by (auto simp: test_md_mdx_cases)
    from s1 have r1: "replace_md_mdx f1 = s1"
      by (auto simp: replace_md_mdx_mdx replace_md_mdx_md)
    from s2 have r2: "replace_md_mdx f2 = s2"
      by (auto simp: replace_md_mdx_mdx replace_md_mdx_md)
    from eq r1 r2 have "s1 = s2" by simp
    with s1 s2 f1 f2 ext show "f1 = f2" by auto
  qed
  with names have "distinct (map ?g ?fs)" by (simp add: distinct_map)
  then have "distinct (map slug_of loaded)" by (simp add: loaded_slugs[OF loaded])
  moreover have "mset (map slug_of ps) = mset (map slug_of loaded)"
    by (simp add: ps mset_Array_sort)
  ultimately show ?thesis by (metis mset_eq_imp_distinct_iff)
qed

theorem slugs_distinct_witness:
  "distinct [''gradle-plugin.mdx'', ''first-post.mdx''] \<and>
   distinct (map slug_of [first_post_data(''slug'' \<mapsto> JString ''first-post''),
                          gradle_post_data(''slug'' \<mapsto> JString ''gradle-plugin'')])"
proof -
  have dir: "readdirSync two_posts (POSTS_PATH two_posts) = Inr [''gradle-plugin.mdx'', ''first-post.mdx'']"
    by (simp add: two_posts_def store_readdir)
  have names: "distinct [''gradle-plugin.mdx'', ''first-post.mdx'']"
    by simp
  have ext: "\<not> (\<exists>s. s @ ''.md'' \<in> set [''gradle-plugin.mdx'', ''first-post.mdx''] \<and>
                 s @ ''.mdx'' \<in> set [''gradle-plugin.mdx'', ''first-post.mdx''])"
    by (auto simp: append_eq_Cons_conv)
  from slugs_distinct[OF two_posts_listing dir names ext] names show ?thesis by simp
qed

text \<open>
  Against C4 as stated: \<open>notes.md\<close> and \<open>notes.mdx\<close> are two distinct names, both are content
  files, and the listing gives both posts the slug \<open>notes\<close>.
\<close>

theorem slugs_md_mdx_counterexample:
  "readdirSync md_and_mdx (POSTS_PATH md_and_mdx) = Inr [''notes.md'', ''notes.mdx''] \<and>
   distinct [''notes.md'', ''notes.mdx''] \<and>
   getAllPosts md_and_mdx =
     Inr [first_post_data(''slug'' \<mapsto> JString ''notes''),
          gradle_post_data(''slug'' \<mapsto> JString ''notes'')] \<and>
   map slug_of [first_post_data(''slug'' \<mapsto> JString ''notes''),
                gradle_post_data(''slug'' \<mapsto> JString ''notes'')] =
     [Some (JString ''notes''), Some (JString ''notes'')]"
proof -
  have "getAllPosts md_and_mdx =
     Inr [first_post_data(''slug'' \<mapsto> JString ''notes''),
          gradle_post_data(''slug'' \<mapsto> JString ''notes'')]"
    unfolding md_and_mdx_def store_getAllPosts
    by (simp add: sample_file_names store_loadPost sample_sources Array_sort_def SortCompare_def
        compareFn_def store_Date_env sample_dates)
  then show ?thesis
    by (simp add: md_and_mdx_def store_readdir slug_of_def)
qed

text \<open>
  C5 (as amended). When the directory can be read and the parse of one of its content files
  fails, the listing fails as a whole: it returns no list, but the error of the first content
  file, in the order of the directory, that fails to load, every content file before it having
  loaded. That error is a parse error when every content file can be read.
\<close>

theorem getAllPosts_parse_failure:
  assumes dir: "readdirSync env (POSTS_PATH env) = Inr files"
    and bad: "bad \<in> set files" "test_md_mdx bad"
    and rd: "readFileSync env (path_join env (POSTS_PATH env) bad) = Inr source"
    and fm: "matter env source = Inl msg"
  shows "\<exists>before f rest e.
           filter test_md_mdx files = before @ f # rest \<and>
           (\<forall>g\<in>set before. \<exists>d. loadPost env g = Inr d) \<and>
           loadPost env f = Inl e \<and>
           getAllPosts env = Inl e \<and>
           ((\<forall>g\<in>set files. test_md_mdx g \<longrightarrow>
               (\<exists>src. readFileSync env (path_join env (POSTS_PATH env) g) = Inr src)) \<longrightarrow>
            (\<exists>m. e = ParseError m))"
proof -
  let ?fs = "filter test_md_mdx files"
  from bad have mem: "bad \<in> set ?fs" by simp
  from rd fm have "loadPost env bad = Inl (ParseError msg)" by (simp add: loadPost_def)
  from first_failure[of bad ?fs "loadPost env", OF mem this] obtain before f rest e where
    split: "?fs = before @ f # rest"
    and ok: "\<forall>g\<in>set before. \<exists>d. loadPost env g = Inr d"
    and f: "loadPost env f = Inl e"
    and pa: "Promise_all (map (loadPost env) ?fs) = Inl e"
    by blast
  from dir pa have res: "getAllPosts env = Inl e" by (simp add: getAllPosts_def)
  have "\<exists>m. e = ParseError m"
    if readable: "\<forall>g\<in>set files. test_md_mdx g \<longrightarrow>
               (\<exists>src. readFileSync env (path_join env (POSTS_PATH env) g) = Inr src)"
  proof -
    have "f \<in> set ?fs" by (simp add: split)
    then have "f \<in> set files" "test_md_mdx f" by simp_all
    with readable obtain src where "readFileSync env (path_join env (POSTS_PATH env) f) = Inr src"
      by blast
    with f show ?thesis by (auto simp: loadPost_def split: sum.splits)
  qed
  with split ok f res show ?thesis by blast
qed

text \<open>
  A store of three readable files, the second one malformed: the listing fails with a parse
  error, although the first and the third file parse.
\<close>

theorem getAllPosts_parse_failure_witness:
  "loadPost one_malformed ''first-post.mdx'' =
     Inr (first_post_data(''slug'' \<mapsto> JString ''first-post'')) \<and>
   (\<exists>m. getAllPosts one_malformed = Inl (ParseError m))"
proof -
  let ?files = "[''first-post.mdx'', ''b-malformed.mdx'', ''gradle-plugin.mdx'']"
  have dir: "readdirSync one_malformed (POSTS_PATH one_malformed) = Inr ?files"
    by (simp add: one_malformed_def store_readdir)
  have bad: "''b-malformed.mdx'' \<in> set ?files" "test_md_mdx ''b-malformed.mdx''"
    by (simp_all add: sample_file_names)
  have rd: "readFileSync one_malformed
      (path_join one_malformed (POSTS_PATH one_malformed) ''b-malformed.mdx'') = Inr malformed_source"
    by (simp add: one_malformed_def store_read)
  have fm: "matter one_malformed malformed_source = Inl ''YAMLException''"
    by (simp add: one_malformed_def store_matter_env sample_sources)
  have readable: "\<forall>g\<in>set ?files. test_md_mdx g \<longrightarrow>
      (\<exists>src. readFileSync one_malformed
                (path_join one_malformed (POSTS_PATH one_malformed) g) = Inr src)"
    by (simp add: one_malformed_def store_read)
  have first: "loadPost one_malformed ''first-post.mdx'' =
     Inr (first_post_data(''slug'' \<mapsto> JString ''first-post''))"
    by (simp add: one_malformed_def store_loadPost sample_sources sample_file_names)
  from getAllPosts_parse_failure[OF dir bad rd fm] readable
  have "\<exists>m. getAllPosts one_malformed = Inl (ParseError m)" by blast
  with first show ?thesis by simp
qed

text \<open>
  Against C5 as stated: the first content file cannot be read and the second one is malformed;
  the parse of the second file fails, and the listing fails with the read error of the first
  file, not with a parse error.
\<close>

theorem parse_failure_read_error_counterexample:
  "readdirSync unreadable_then_malformed (POSTS_PATH unreadable_then_malformed) =
     Inr [''a-unreadable.mdx'', ''b-malformed.mdx''] \<and>
   loadPost unreadable_then_malformed ''a-unreadable.mdx'' = Inl (FsError EACCES) \<and>
   loadPost unreadable_then_malformed ''b-malformed.mdx'' = Inl (ParseError ''YAMLException'') \<and>
   getAllPosts unreadable_then_malformed = Inl (FsError EACCES)"
proof -
  have "getAllPosts unreadable_then_malformed = Inl (FsError EACCES)"
    unfolding unreadable_then_malformed_def store_getAllPosts
    by (simp add: sample_file_names store_loadPost)
  then show ?thesis
    by (simp add: unreadable_then_malformed_def store_readdir store_loadPost sample_sources)
qed

text \<open>
  C10. Whenever \<open>getPostBySlug\<close> returns, the slug of the returned metadata is the slug it was
  given, a trailing \<open>.mdx\<close> stripped. Whenever \<open>getAllPosts\<close> returns, every post of the list
  is the post built from one content file of the directory: the parsed header of that file
  with \<open>slug\<close> set to the name of the file, the extension stripped; and every content file
  has its post in the list. Both hold whatever the header says, a \<open>slug\<close> key included.
\<close>

theorem slug_from_file_name:
  "(getPostBySlug env s = Inr r \<longrightarrow> slug_of (metadata r) = Some (JString (replace_mdx s))) \<and>
   (getAllPosts env = Inr ps \<longrightarrow>
      (\<exists>files. readdirSync env (POSTS_PATH env) = Inr files \<and>
         (\<forall>p\<in>set ps. \<exists>f\<in>set files. test_md_mdx f \<and> loadPost env f = Inr p \<and>
            (\<exists>source d c.
               readFileSync env (path_join env (POSTS_PATH env) f) = Inr source \<and>
               matter env source = Inr (d, c) \<and>
               p = d(''slug'' \<mapsto> JString (replace_md_mdx f))) \<and>
            slug_of p = Some (JString (replace_md_mdx f))) \<and>
         (\<forall>f\<in>set files. test_md_mdx f \<longrightarrow>
            (\<exists>p\<in>set ps. loadPost env f = Inr p \<and>
               slug_of p = Some (JString (replace_md_mdx f)))) \<and>
         mset (map slug_of ps) =
         mset (map (\<lambda>f. Some (JString (replace_md_mdx f))) (filter test_md_mdx files))))"
proof (intro conjI impI)
  assume "getPostBySlug env s = Inr r"
  then show "slug_of (metadata r) = Some (JString (replace_mdx s))"
    by (auto simp: getPostBySlug_def slug_of_def split: sum.splits)
next
  assume "getAllPosts env = Inr ps"
  then obtain files loaded where
    dir: "readdirSync env (POSTS_PATH env) = Inr files"
    and loaded: "map (loadPost env) (filter test_md_mdx files) = map Inr loaded"
    and ps: "ps = Array_sort (compareFn env) loaded"
    using getAllPosts_Inr_D by blast
  have set_ps: "set ps = set loaded" by (simp add: ps set_Array_sort)
  have each: "\<forall>p\<in>set ps. \<exists>f\<in>set files. test_md_mdx f \<and> loadPost env f = Inr p \<and>
            (\<exists>source d c.
               readFileSync env (path_join env (POSTS_PATH env) f) = Inr source \<and>
               matter env source = Inr (d, c) \<and>
               p = d(''slug'' \<mapsto> JString (replace_md_mdx f))) \<and>
            slug_of p = Some (JString (replace_md_mdx f))"
  proof
    fix p assume "p \<in> set ps"
    then have "p \<in> set loaded" by (simp add: set_ps)
    from map_Inr_source[OF loaded this] obtain f where
      f: "f \<in> set (filter test_md_mdx files)" "loadPost env f = Inr p"
      by blast
    from f(1) have "f \<in> set files" "test_md_mdx f" by simp_all
    with f(2) loadPost_Inr_D[OF f(2)] loadPost_slug[OF f(2)]
    show "\<exists>f\<in>set files. test_md_mdx f \<and> loadPost env f = Inr p \<and>
            (\<exists>source d c.
               readFileSync env (path_join env (POSTS_PATH env) f) = Inr source \<and>
               matter env source = Inr (d, c) \<and>
               p = d(''slug'' \<mapsto> JString (replace_md_mdx f))) \<and>
            slug_of p = Some (JString (replace_md_mdx f))"
      by blast
  qed
  have every: "\<forall>f\<in>set files. test_md_mdx f \<longrightarrow>
            (\<exists>p\<in>set ps. loadPost env f = Inr p \<and>
               slug_of p = Some (JString (replace_md_mdx f)))"
  proof (intro ballI impI)
    fix f assume "f \<in> set files" "test_md_mdx f"
    then have "f \<in> set (filter test_md_mdx files)" by simp
    from map_Inr_member[OF loaded this] obtain p where
      p: "p \<in> set loaded" "loadPost env f = Inr p"
      by blast
    with loadPost_slug[OF p(2)] set_ps
    show "\<exists>p\<in>set ps. loadPost env f = Inr p \<and>
               slug_of p = Some (JString (replace_md_mdx f))"
      by blast
  qed
  have "mset (map slug_of ps) = mset (map slug_of loaded)"
    by (simp add: ps mset_Array_sort)
  then have slugs: "mset (map slug_of ps) =
         mset (map (\<lambda>f. Some (JString (replace_md_mdx f))) (filter test_md_mdx files))"
    by (simp add: loaded_slugs[OF loaded])
  from dir each every slugs
  show "\<exists>files. readdirSync env (POSTS_PATH env) = Inr files \<and>
         (\<forall>p\<in>set ps. \<exists>f\<in>set files. test_md_mdx f \<and> loadPost env f = Inr p \<and>
            (\<exists>source d c.
               readFileSync env (path_join env (POSTS_PATH env) f) = Inr source \<and>
               matter env source = Inr (d, c) \<and>
               p = d(''slug'' \<mapsto> JString (replace_md_mdx f))) \<and>
            slug_of p = Some (JString (replace_md_mdx f))) \<and>
         (\<forall>f\<in>set files. test_md_mdx f \<longrightarrow>
            (\<exists>p\<in>set ps. loadPost env f = Inr p \<and>
               slug_of p = Some (JString (replace_md_mdx f)))) \<and>
         mset (map slug_of ps) =
         mset (map (\<lambda>f. Some (JString (replace_md_mdx f))) (filter test_md_mdx files))"
    by blast
qed

text \<open>
  A store of two files. The metadata header of \<open>notes.mdx\<close> sets \<open>slug\<close> to \<open>custom-slug\<close>;
  the post page and the listing both give that post the slug \<open>notes\<close>, and the listing gives
  the post of \<open>first-post.mdx\<close> the slug \<open>first-post\<close>: each post of the list is the load of a
  file of the directory, with the slug of that file.
\<close>

theorem slug_from_file_name_witness:
  "slug_of slugged_data = Some (JString ''custom-slug'') \<and>
   getPostBySlug slugged_store ''notes.mdx'' =
     Inr \<lparr>mdxSource = ''Body'', metadata = slugged_data(''slug'' \<mapsto> JString ''notes'')\<rparr> \<and>
   slug_of (slugged_data(''slug'' \<mapsto> JString ''notes'')) = Some (JString ''notes'') \<and>
   getAllPosts slugged_store =
     Inr [first_post_data(''slug'' \<mapsto> JString ''first-post''),
          slugged_data(''slug'' \<mapsto> JString ''notes'')] \<and>
   loadPost slugged_store ''notes.mdx'' = Inr (slugged_data(''slug'' \<mapsto> JString ''notes'')) \<and>
   loadPost slugged_store ''first-post.mdx'' =
     Inr (first_post_data(''slug'' \<mapsto> JString ''first-post'')) \<and>
   (\<exists>f\<in>set [''notes.mdx'', ''first-post.mdx''].
      loadPost slugged_store f = Inr (slugged_data(''slug'' \<mapsto> JString ''notes'')) \<and>
      slug_of (slugged_data(''slug'' \<mapsto> JString ''notes'')) =
        Some (JString (replace_md_mdx f)))"
proof -
  let ?notes = "slugged_data(''slug'' \<mapsto> JString ''notes'')"
  let ?first = "first_post_data(''slug'' \<mapsto> JString ''first-post'')"
  have one: "getPostBySlug slugged_store ''notes.mdx'' =
     Inr \<lparr>mdxSource = ''Body'', metadata = ?notes\<rparr>"
    by (simp add: slugged_store_def store_getPostBySlug sample_slugs sample_sources)
  have all: "getAllPosts slugged_store = Inr [?first, ?notes]"
    unfolding slugged_store_def store_getAllPosts
    by (simp add: sample_file_names store_loadPost sample_sources Array_sort_def SortCompare_def
        compareFn_def store_Date_env sample_dates)
  have dir: "readdirSync slugged_store (POSTS_PATH slugged_store) =
      Inr [''notes.mdx'', ''first-post.mdx'']"
    by (simp add: slugged_store_def store_readdir)
  have header: "slug_of slugged_data = Some (JString ''custom-slug'')"
    by (simp add: slug_of_def slugged_data_def)
  have loads: "loadPost slugged_store ''notes.mdx'' = Inr ?notes"
    "loadPost slugged_store ''first-post.mdx'' = Inr ?first"
    by (simp_all add: slugged_store_def store_loadPost sample_sources sample_file_names)
  note fact = slug_from_file_name[of slugged_store "''notes.mdx''"
      "\<lparr>mdxSource = ''Body'', metadata = ?notes\<rparr>" "[?first, ?notes]"]
  from fact one have slug: "slug_of ?notes = Some (JString ''notes'')"
    by (simp add: sample_slugs)
  from fact all dir
  have "\<forall>p\<in>set [?first, ?notes]. \<exists>f\<in>set [''notes.mdx'', ''first-post.mdx''].
          test_md_mdx f \<and> loadPost slugged_store f = Inr p \<and>
          (\<exists>source d c.
             readFileSync slugged_store (path_join slugged_store (POSTS_PATH slugged_store) f)
               = Inr source \<and>
             matter slugged_store source = Inr (d, c) \<and>
             p = d(''slug'' \<mapsto> JString (replace_md_mdx f))) \<and>
          slug_of p = Some (JString (replace_md_mdx f))"
    by auto
  then have "\<exists>f\<in>set [''notes.mdx'', ''first-post.mdx''].
      loadPost slugged_store f = Inr ?notes \<and>
      slug_of ?notes = Some (JString (replace_md_mdx f))"
    by auto
  with one all header loads slug show ?thesis by simp
qed

subsection \<open>Search filter\<close>

text \<open>
  C6. A post is in the result of the filter exactly when it is one of the posts and the
  lower-cased query occurs, as a contiguous run of characters, in the lower-cased title, in
  the lower-cased description, or in one of the lower-cased tags.
\<close>

theorem filterPosts_iff:
  "p \<in> set (filterPosts ps query) \<longleftrightarrow>
     p \<in> set ps \<and>
     (sublist (toLowerCase query) (toLowerCase (title p)) \<or>
      sublist (toLowerCase query) (toLowerCase (description p)) \<or>
      (\<exists>tag \<in> set (tags p). sublist (toLowerCase query) (toLowerCase tag)))"
  by (simp add: filterPosts_def postMatches_def String_includes_sublist list_ex_iff)

text \<open>
  The example of the claim: a post with the tags \<open>coding\<close> and \<open>learning\<close>, whose title and
  description do not hold the query, matches \<open>LEARN\<close>.
\<close>

theorem filterPosts_iff_witness:
  "tags tagged_post = [''coding'', ''learning''] \<and>
   tagged_post \<in> set (filterPosts [other_post, tagged_post] ''LEARN'')"
proof -
  have "String_includes (toLowerCase ''learning'') (toLowerCase ''LEARN'')"
    by code_simp
  then have "sublist (toLowerCase ''LEARN'') (toLowerCase ''learning'')"
    by (simp only: String_includes_sublist)
  then have "\<exists>tag \<in> set (tags tagged_post). sublist (toLowerCase ''LEARN'') (toLowerCase tag)"
    by (simp add: tagged_post_def)
  with filterPosts_iff[of tagged_post "[other_post, tagged_post]" "''LEARN''"]
  have "tagged_post \<in> set (filterPosts [other_post, tagged_post] ''LEARN'')"
    by simp
  then show ?thesis by (simp add: tagged_post_def)
qed

text \<open>
  C7. With the empty query the filter returns the posts it was given, all of them and in
  their order; \<open>handleSearch\<close> then shows the loaded posts.
\<close>

theorem filterPosts_empty_query:
  "filterPosts ps [] = ps \<and> filteredPosts (handleSearch st []) = posts st"
  by (simp add: handleSearch_def filterPosts_def postMatches_def toLowerCase_def
      String_includes_empty)

theorem filterPosts_empty_query_witness:
  "filterPosts [other_post, tagged_post] [] = [other_post, tagged_post]"
  using filterPosts_empty_query[of "[other_post, tagged_post]"] by simp

text \<open>C8. Filtering the result of the filter by the same query changes nothing.\<close>

theorem filterPosts_idempotent:
  "filterPosts (filterPosts ps q) q = filterPosts ps q"
  by (simp add: filterPosts_def)

theorem filterPosts_idempotent_witness:
  "filterPosts (filterPosts [other_post, tagged_post] ''LEARN'') ''LEARN'' = [tagged_post]"
proof -
  have "filterPosts [other_post, tagged_post] ''LEARN'' = [tagged_post]"
    by code_simp
  with filterPosts_idempotent[of "[other_post, tagged_post]" "''LEARN''"]
  show ?thesis by simp
qed

text \<open>
  C9. The filter does not see the case of the query: a query and its lower-cased form give
  the same result, and so do \<open>CODING\<close> and \<open>coding\<close>.
\<close>

theorem filterPosts_case_insensitive:
  "filterPosts ps q = filterPosts ps (toLowerCase q) \<and>
   filterPosts ps ''CODING'' = filterPosts ps ''coding''"
proof -
  have general: "filterPosts ps q = filterPosts ps (toLowerCase q)" for q
    by (simp add: filterPosts_def toLowerCase_idem)
  have "toLowerCase ''CODING'' = ''coding''" by code_simp
  with general[of "''CODING''"] general[of q] show ?thesis by simp
qed

theorem filterPosts_case_insensitive_witness:
  "filterPosts [other_post, tagged_post] ''CODING'' = [tagged_post] \<and>
   filterPosts [other_post, tagged_post] ''coding'' = [tagged_post]"
proof -
  have "filterPosts [other_post, tagged_post] ''coding'' = [tagged_post]"
    by code_simp
  moreover from filterPosts_case_insensitive[of "[other_post, tagged_post]" "''CODING''"]
  have "filterPosts [other_post, tagged_post] ''CODING'' =
        filterPosts [other_post, tagged_post] ''coding''"
    by (rule conjunct2)
  ultimately show ?thesis by simp
qed

end
